theory Spec2Isabelle
  imports Complex_Main
begin

section \<open>The event packet of src/event\_packet.py\<close>

text \<open>
  The module defines one class, \<open>EventPacket\<close>. Its methods are embedded below as HOL
  functions over Python values; every \<open>raise\<close> is a result \<open>Inl e\<close>.

  Reading conventions. The source text has two unbalanced delimiters (no comma after the
  default value of \<open>sample_interval_utc\<close> in the signature of \<open>__init__\<close>, no closing
  parenthesis after \<open>self.summary\<close> in \<open>form_submit_body\<close>); the embedding reads both as
  restored. Annotations are not evaluated. Everything else is taken as written: the
  attribute names, the arguments of each call, the boolean connectives of the guards.
\<close>

subsection \<open>Exceptions and values\<close>

datatype error =
    ValueError
  | TypeError
  | KeyError
  | IndexError
  | AttributeError
  | UnknownTimeZoneError

text \<open>A naive \<open>datetime.datetime\<close>: no zone is attached.\<close>

record datetime =
  year :: nat
  month :: nat
  day :: nat
  hour :: nat
  minute :: nat
  second :: nat
  microsecond :: nat

text \<open>
  The Python values the class can meet: \<open>None\<close>, integers, strings (characters are
  code points below 256), naive datetimes, tuples, and dictionaries with string keys (an
  association list in insertion order, keys distinct).
\<close>

datatype pyval =
    PNone
  | PInt int
  | PStr string
  | PDateTime datetime
  | PTuple "pyval list"
  | PDict "(string \<times> pyval) list"

text \<open>
  Python's \<open>==\<close> on these values. Tuples compare element by element; dictionaries
  compare as mappings, whatever the insertion order; values of different types are
  unequal.
\<close>

fun py_eq :: "pyval \<Rightarrow> pyval \<Rightarrow> bool"
  and py_eq_items :: "pyval list \<Rightarrow> pyval list \<Rightarrow> bool"
  and py_eq_dict :: "(string \<times> pyval) list \<Rightarrow> (string \<times> pyval) list \<Rightarrow> bool"
  and py_eq_entry :: "pyval \<Rightarrow> string \<Rightarrow> (string \<times> pyval) list \<Rightarrow> bool"
where
  "py_eq PNone b = (b = PNone)"
| "py_eq (PInt i) b = (b = PInt i)"
| "py_eq (PStr s) b = (b = PStr s)"
| "py_eq (PDateTime d) b = (b = PDateTime d)"
| "py_eq (PTuple xs) (PTuple ys) = py_eq_items xs ys"
| "py_eq (PTuple xs) b = False"
| "py_eq (PDict kvs) (PDict kws) = (length kvs = length kws \<and> py_eq_dict kvs kws)"
| "py_eq (PDict kvs) b = False"
| "py_eq_items [] ys = (ys = [])"
| "py_eq_items (x # xs) [] = False"
| "py_eq_items (x # xs) (y # ys) = (py_eq x y \<and> py_eq_items xs ys)"
| "py_eq_dict [] kws = True"
| "py_eq_dict ((k, v) # kvs) kws = (py_eq_entry v k kws \<and> py_eq_dict kvs kws)"
| "py_eq_entry v k [] = False"
| "py_eq_entry v k ((k', w) # kws) = (if k = k' then py_eq v w else py_eq_entry v k kws)"

subsection \<open>The class\<close>

text \<open>
  The attributes \<open>__init__\<close> assigns: \<open>begin\<close>, \<open>end\<close>, \<open>summary\<close>,
  \<open>sample_interval_utc\<close>, \<open>timezone\<close>, \<open>location\<close>. (\<open>begin\<close> and \<open>end\<close> are
  written with a prime here.) The interval's components and the summary are stored
  unchecked, so they are arbitrary values; the zone pair and the location are taken at
  their annotated types.
\<close>

record event =
  begin' :: pyval
  end' :: pyval
  summary :: pyval
  sample_interval_utc :: bool
  timezone :: string
  location :: string

text \<open>The right operand of a comparison: an \<open>EventPacket\<close> or any other value.\<close>

datatype operand = Ev event | Other pyval

definition isinstance_EventPacket :: "operand \<Rightarrow> bool" where
  "isinstance_EventPacket rhs = (case rhs of Ev _ \<Rightarrow> True | Other _ \<Rightarrow> False)"

text \<open>
  \<^verbatim>\<open>
  def __eq__(self, rhs):
      if not(isinstance(rhs, EventPacket)):
          raise ValueError(f'Cannot compare EventPacket to {type(rhs)}')
      return ((self.begin, self.end) == (rhs.begin, rhs.end) and
              self.summary == rhs.summary)
  \<close>
\<close>

definition eq_op :: "event \<Rightarrow> operand \<Rightarrow> error + bool" where
  "eq_op self rhs =
     (case rhs of
        Other v \<Rightarrow> Inl ValueError
      | Ev r \<Rightarrow>
          Inr (py_eq (PTuple [begin' self, end' self]) (PTuple [begin' r, end' r])
               \<and> py_eq (summary self) (summary r)))"

text \<open>
  \<^verbatim>\<open>
  def __lt__(self, rhs):
      if not(isinstance(rhs, EventPacket)):
          raise ValueError(f'Cannot compare EventPacket to {type(rhs)}')
      return False
  \<close>
\<close>

definition lt_op :: "event \<Rightarrow> operand \<Rightarrow> error + bool" where
  "lt_op self rhs =
     (if \<not> isinstance_EventPacket rhs then Inl ValueError else Inr False)"

subsection \<open>Type tests, subscripting, iteration\<close>

definition isinstance_tuple :: "pyval \<Rightarrow> bool" where
  "isinstance_tuple v = (case v of PTuple _ \<Rightarrow> True | _ \<Rightarrow> False)"

definition isinstance_str :: "pyval \<Rightarrow> bool" where
  "isinstance_str v = (case v of PStr _ \<Rightarrow> True | _ \<Rightarrow> False)"

definition isinstance_dict :: "pyval \<Rightarrow> bool" where
  "isinstance_dict v = (case v of PDict _ \<Rightarrow> True | _ \<Rightarrow> False)"

text \<open>
  \<open>v[k]\<close> for a string key \<open>k\<close>: a dictionary looks the key up (\<open>KeyError\<close> when it
  is absent); strings and tuples take integer indices only, the other values are not
  subscriptable (\<open>TypeError\<close>).
\<close>

definition getitem :: "pyval \<Rightarrow> string \<Rightarrow> error + pyval" where
  "getitem v k =
     (case v of
        PDict kvs \<Rightarrow> (case map_of kvs k of None \<Rightarrow> Inl KeyError | Some x \<Rightarrow> Inr x)
      | _ \<Rightarrow> Inl TypeError)"

text \<open>
  \<open>v[i]\<close> for an index \<open>i \<ge> 0\<close>: \<open>IndexError\<close> out of range, \<open>KeyError\<close> on a
  dictionary (no key of it is an integer), \<open>TypeError\<close> on the values that are not
  subscriptable.
\<close>

definition getindex :: "pyval \<Rightarrow> nat \<Rightarrow> error + pyval" where
  "getindex v i =
     (case v of
        PTuple xs \<Rightarrow> (if i < length xs then Inr (xs ! i) else Inl IndexError)
      | PStr s \<Rightarrow> (if i < length s then Inr (PStr [s ! i]) else Inl IndexError)
      | PDict kvs \<Rightarrow> Inl KeyError
      | _ \<Rightarrow> Inl TypeError)"

text \<open>
  The elements \<open>iter(v)\<close> yields: those of a tuple, the characters of a string, the keys
  of a dictionary; the other values are not iterable.
\<close>

definition iter_py :: "pyval \<Rightarrow> error + pyval list" where
  "iter_py v =
     (case v of
        PTuple xs \<Rightarrow> Inr xs
      | PStr s \<Rightarrow> Inr (map (\<lambda>c. PStr [c]) s)
      | PDict kvs \<Rightarrow> Inr (map (\<lambda>kv. PStr (fst kv)) kvs)
      | _ \<Rightarrow> Inl TypeError)"

text \<open>
  What a constructor receives as \<open>interval\<close>: a value, or the lazy object
  \<open>map(f, xs)\<close>, which applies \<open>f\<close> to an element only when that element is asked for.
\<close>

datatype arg = Val pyval | MapObj "pyval \<Rightarrow> error + pyval" "pyval list"

definition isinstance_tuple_arg :: "arg \<Rightarrow> bool" where
  "isinstance_tuple_arg a = (case a of Val v \<Rightarrow> isinstance_tuple v | MapObj _ _ \<Rightarrow> False)"

text \<open>
  \<open>x, y = it\<close> over the elements \<open>f a\<close>: two elements are taken, then a third is asked
  for to see that there is none. Too few or too many elements raise \<open>ValueError\<close>; an
  exception of \<open>f\<close> is raised when its element is reached.
\<close>

definition unpack2_map :: "(pyval \<Rightarrow> error + pyval) \<Rightarrow> pyval list \<Rightarrow> error + pyval \<times> pyval" where
  "unpack2_map f xs =
     (case xs of
        [] \<Rightarrow> Inl ValueError
      | a1 # xs1 \<Rightarrow>
          (case f a1 of
             Inl e \<Rightarrow> Inl e
           | Inr x \<Rightarrow>
               (case xs1 of
                  [] \<Rightarrow> Inl ValueError
                | a2 # xs2 \<Rightarrow>
                    (case f a2 of
                       Inl e \<Rightarrow> Inl e
                     | Inr y \<Rightarrow>
                         (case xs2 of
                            [] \<Rightarrow> Inr (x, y)
                          | a3 # _ \<Rightarrow>
                              (case f a3 of Inl e \<Rightarrow> Inl e | Inr _ \<Rightarrow> Inl ValueError))))))"

definition unpack2 :: "arg \<Rightarrow> error + pyval \<times> pyval" where
  "unpack2 a =
     (case a of
        Val v \<Rightarrow> (case iter_py v of Inl e \<Rightarrow> Inl e | Inr xs \<Rightarrow> unpack2_map Inr xs)
      | MapObj f xs \<Rightarrow> unpack2_map f xs)"

subsection \<open>Construction\<close>

definition NAME :: string where
  "NAME = ''Jared''"

definition GLOBAL_SUMMARY :: string where
  "GLOBAL_SUMMARY = NAME @ [CHR 0x27] @ ''s Work''"

definition DEFAULT_LOCATION :: string where
  "DEFAULT_LOCATION = ''800 N State College Blvd, Fullerton, CA 92831''"

definition DEFAULT_SAMPLE_INTERVAL_UTC :: "bool \<times> string" where
  "DEFAULT_SAMPLE_INTERVAL_UTC = (False, ''America/Los_Angeles'')"

text \<open>
  \<^verbatim>\<open>
  def __init__(self, interval, summary=GLOBAL_SUMMARY,
               sample_interval_utc=(False, "America/Los_Angeles"),
               location=DEFAULT_LOCATION):
      if not(isinstance(interval, tuple) or
             isinstance(summary, str)):
          raise ValueError
      self.begin, self.end = interval
      self.summary = summary
      self.sample_interval_utc, self.timezone = sample_interval_utc
      self.location = location
  \<close>
\<close>

definition EventPacket_init :: "arg \<Rightarrow> pyval \<Rightarrow> bool \<times> string \<Rightarrow> string \<Rightarrow> error + event" where
  "EventPacket_init interval summ sample loc =
     (if \<not> (isinstance_tuple_arg interval \<or> isinstance_str summ) then Inl ValueError
      else
        (case unpack2 interval of
           Inl e \<Rightarrow> Inl e
         | Inr (b, e) \<Rightarrow>
             Inr \<lparr>begin' = b, end' = e, summary = summ,
                  sample_interval_utc = fst sample, timezone = snd sample,
                  location = loc\<rparr>))"

text \<open>The call \<open>cls(interval, summary)\<close>: the other two parameters take their defaults.\<close>

definition EventPacket :: "arg \<Rightarrow> pyval \<Rightarrow> error + event" where
  "EventPacket interval summ =
     EventPacket_init interval summ DEFAULT_SAMPLE_INTERVAL_UTC DEFAULT_LOCATION"

subsection \<open>Parsing a date string\<close>

text \<open>
  \<open>datetime.datetime.strptime(s, "%Y-%m-%dT%H:%M:%S")\<close>. The library turns the format
  into the pattern
  \<^verbatim>\<open>(\d\d\d\d)-(1[0-2]|0[1-9]|[1-9])-(3[0-1]|[1-2]\d|0[1-9]|[1-9]| [1-9])T\<close>
  \<^verbatim>\<open>(2[0-3]|[0-1]\d|\d):([0-5]\d|\d):(6[0-1]|[0-5]\d|\d)\<close>,
  matched from the start of the string without regard to letter case; the match has to
  use up the whole string, and the fields have to form a date and a time of day
  (years from 1, the day within its month, seconds below 60). Every failure is a
  \<open>ValueError\<close>. No field's language holds a separator, so the string is cut at the
  separators and each piece is tested against its field.
\<close>

definition between :: "char \<Rightarrow> char \<Rightarrow> char \<Rightarrow> bool" where
  "between lo hi c = ((of_char lo :: nat) \<le> of_char c \<and> (of_char c :: nat) \<le> of_char hi)"

definition is_digit :: "char \<Rightarrow> bool" where
  "is_digit c = between (CHR ''0'') (CHR ''9'') c"

definition digit_val :: "char \<Rightarrow> nat" where
  "digit_val c = of_char c - 48"

text \<open>\<open>int(s)\<close> for a string of digits, blanks in front skipped.\<close>

definition int_of_digits :: "string \<Rightarrow> nat" where
  "int_of_digits s = foldl (\<lambda>n c. 10 * n + digit_val c) 0 (dropWhile (\<lambda>c. c = CHR '' '') s)"

fun split_on :: "(char \<Rightarrow> bool) \<Rightarrow> string \<Rightarrow> (string \<times> string) option" where
  "split_on p [] = None"
| "split_on p (c # cs) =
     (if p c then Some ([], cs)
      else (case split_on p cs of None \<Rightarrow> None | Some (a, b) \<Rightarrow> Some (c # a, b)))"

fun field_Y :: "string \<Rightarrow> bool" where
  "field_Y [a, b, c, d] = (is_digit a \<and> is_digit b \<and> is_digit c \<and> is_digit d)"
| "field_Y _ = False"

fun field_m :: "string \<Rightarrow> bool" where
  "field_m [a, b] =
     ((a = CHR ''1'' \<and> between (CHR ''0'') (CHR ''2'') b)
      \<or> (a = CHR ''0'' \<and> between (CHR ''1'') (CHR ''9'') b))"
| "field_m [a] = between (CHR ''1'') (CHR ''9'') a"
| "field_m _ = False"

fun field_d :: "string \<Rightarrow> bool" where
  "field_d [a, b] =
     ((a = CHR ''3'' \<and> between (CHR ''0'') (CHR ''1'') b)
      \<or> (between (CHR ''1'') (CHR ''2'') a \<and> is_digit b)
      \<or> (a = CHR ''0'' \<and> between (CHR ''1'') (CHR ''9'') b)
      \<or> (a = CHR '' '' \<and> between (CHR ''1'') (CHR ''9'') b))"
| "field_d [a] = between (CHR ''1'') (CHR ''9'') a"
| "field_d _ = False"

fun field_H :: "string \<Rightarrow> bool" where
  "field_H [a, b] =
     ((a = CHR ''2'' \<and> between (CHR ''0'') (CHR ''3'') b)
      \<or> (between (CHR ''0'') (CHR ''1'') a \<and> is_digit b))"
| "field_H [a] = is_digit a"
| "field_H _ = False"

fun field_M :: "string \<Rightarrow> bool" where
  "field_M [a, b] = (between (CHR ''0'') (CHR ''5'') a \<and> is_digit b)"
| "field_M [a] = is_digit a"
| "field_M _ = False"

fun field_S :: "string \<Rightarrow> bool" where
  "field_S [a, b] =
     ((a = CHR ''6'' \<and> between (CHR ''0'') (CHR ''1'') b)
      \<or> (between (CHR ''0'') (CHR ''5'') a \<and> is_digit b))"
| "field_S [a] = is_digit a"
| "field_S _ = False"

definition is_leap :: "nat \<Rightarrow> bool" where
  "is_leap y = (y mod 4 = 0 \<and> (y mod 100 \<noteq> 0 \<or> y mod 400 = 0))"

definition days_in_month :: "nat \<Rightarrow> nat \<Rightarrow> nat" where
  "days_in_month y m =
     (if m = 2 then (if is_leap y then 29 else 28)
      else if m = 4 \<or> m = 6 \<or> m = 9 \<or> m = 11 then 30
      else 31)"

text \<open>The constructor \<open>datetime(y, m, d, H, M, S)\<close>, which checks every field.\<close>

definition mk_datetime :: "nat \<Rightarrow> nat \<Rightarrow> nat \<Rightarrow> nat \<Rightarrow> nat \<Rightarrow> nat \<Rightarrow> error + datetime" where
  "mk_datetime y m d H M S =
     (if 1 \<le> y \<and> y \<le> 9999 \<and> 1 \<le> m \<and> m \<le> 12 \<and> 1 \<le> d \<and> d \<le> days_in_month y m
         \<and> H \<le> 23 \<and> M \<le> 59 \<and> S \<le> 59
      then Inr \<lparr>year = y, month = m, day = d, hour = H, minute = M, second = S,
                microsecond = 0\<rparr>
      else Inl ValueError)"

definition strptime :: "string \<Rightarrow> error + datetime" where
  "strptime s =
     (case split_on (\<lambda>c. c = CHR ''-'') s of
        None \<Rightarrow> Inl ValueError
      | Some (fY, r1) \<Rightarrow>
     (case split_on (\<lambda>c. c = CHR ''-'') r1 of
        None \<Rightarrow> Inl ValueError
      | Some (fm, r2) \<Rightarrow>
     (case split_on (\<lambda>c. c = CHR ''T'' \<or> c = CHR ''t'') r2 of
        None \<Rightarrow> Inl ValueError
      | Some (fd, r3) \<Rightarrow>
     (case split_on (\<lambda>c. c = CHR '':'') r3 of
        None \<Rightarrow> Inl ValueError
      | Some (fH, r4) \<Rightarrow>
     (case split_on (\<lambda>c. c = CHR '':'') r4 of
        None \<Rightarrow> Inl ValueError
      | Some (fM, fS) \<Rightarrow>
          (if field_Y fY \<and> field_m fm \<and> field_d fd \<and> field_H fH \<and> field_M fM \<and> field_S fS
           then mk_datetime (int_of_digits fY) (int_of_digits fm) (int_of_digits fd)
                  (int_of_digits fH) (int_of_digits fM) (int_of_digits fS)
           else Inl ValueError))))))"

text \<open>
  The \<open>lambda\<close> of \<open>from_string\<close>: \<open>strptime\<close> takes a string and nothing else
  (\<open>TypeError\<close>).
\<close>

definition strptime_py :: "pyval \<Rightarrow> error + pyval" where
  "strptime_py date_str =
     (case date_str of
        PStr s \<Rightarrow> (case strptime s of Inl e \<Rightarrow> Inl e | Inr d \<Rightarrow> Inr (PDateTime d))
      | _ \<Rightarrow> Inl TypeError)"

subsection \<open>The alternative constructors\<close>

text \<open>
  \<^verbatim>\<open>
  @classmethod
  def from_string(cls, interval, summary):
      if not(isinstance(interval, tuple) or
             isinstance(summary, str)):
          raise ValueError
      return cls(
          map(lambda date_str: datetime.datetime.strptime(
              date_str, "%Y-%m-%dT%H:%M:%S"), interval),
          summary
      )
  \<close>
  \<open>map\<close> itself raises \<open>TypeError\<close> on a value that cannot be iterated.
\<close>

definition from_string :: "pyval \<Rightarrow> pyval \<Rightarrow> error + event" where
  "from_string interval summ =
     (if \<not> (isinstance_tuple interval \<or> isinstance_str summ) then Inl ValueError
      else
        (case iter_py interval of
           Inl e \<Rightarrow> Inl e
         | Inr xs \<Rightarrow> EventPacket (MapObj strptime_py xs) summ))"

text \<open>
  A call \<open>EventPacket.from_string(a\<^sub>1, \<dots>, a\<^sub>n)\<close> with positional arguments: the method
  has two parameters besides \<open>cls\<close>, and any other number of arguments is a
  \<open>TypeError\<close>.
\<close>

definition call_from_string :: "pyval list \<Rightarrow> error + event" where
  "call_from_string args =
     (case args of [interval, summ] \<Rightarrow> from_string interval summ | _ \<Rightarrow> Inl TypeError)"

text \<open>
  \<^verbatim>\<open>
  @classmethod
  def from_dict(cls, body):
      if not(isinstance(body, typing.Dict)):
          raise ValueError
      return EventPacket.from_string(operator.itemgetter("start", "end")(body),
                                     body['summary'])
  \<close>
\<close>

definition from_dict :: "pyval \<Rightarrow> error + event" where
  "from_dict body =
     (if \<not> isinstance_dict body then Inl ValueError
      else
        (case getitem body ''start'' of
           Inl e \<Rightarrow> Inl e
         | Inr s1 \<Rightarrow>
        (case getitem body ''end'' of
           Inl e \<Rightarrow> Inl e
         | Inr s2 \<Rightarrow>
        (case getitem body ''summary'' of
           Inl e \<Rightarrow> Inl e
         | Inr t \<Rightarrow> call_from_string [PTuple [s1, s2], t]))))"

text \<open>
  \<^verbatim>\<open>
  @classmethod
  def from_freebusy(cls, response):
      return EventPacket.from_string(response['start']['dateTime'],
                                     response['end']['dateTime'], response['summary'])
  \<close>
  The three arguments are evaluated from left to right, then the call is made.
\<close>

definition from_freebusy :: "pyval \<Rightarrow> error + event" where
  "from_freebusy response =
     (case getitem response ''start'' of
        Inl e \<Rightarrow> Inl e
      | Inr s \<Rightarrow>
     (case getitem s ''dateTime'' of
        Inl e \<Rightarrow> Inl e
      | Inr a1 \<Rightarrow>
     (case getitem response ''end'' of
        Inl e \<Rightarrow> Inl e
      | Inr e' \<Rightarrow>
     (case getitem e' ''dateTime'' of
        Inl e \<Rightarrow> Inl e
      | Inr a2 \<Rightarrow>
     (case getitem response ''summary'' of
        Inl e \<Rightarrow> Inl e
      | Inr a3 \<Rightarrow> call_from_string [a1, a2, a3])))))"

subsection \<open>Rendering numbers and timestamps\<close>

fun show_nat :: "nat \<Rightarrow> string" where
  "show_nat n =
     (if n < 10 then [char_of (48 + n)]
      else show_nat (n div 10) @ [char_of (48 + n mod 10)])"

declare show_nat.simps [simp del]

definition show_int :: "int \<Rightarrow> string" where
  "show_int i = (if i < 0 then CHR ''-'' # show_nat (nat (- i)) else show_nat (nat i))"

text \<open>\<open>'%0wd' % n\<close>: zeros in front up to the width \<open>w\<close>.\<close>

definition zfill :: "nat \<Rightarrow> nat \<Rightarrow> string" where
  "zfill w n = replicate (w - length (show_nat n)) (CHR ''0'') @ show_nat n"

text \<open>\<open>d.strftime("%Y-%m-%dT%H:%M:%S")\<close>, the year on four digits.\<close>

definition strftime_iso :: "datetime \<Rightarrow> string" where
  "strftime_iso d =
     zfill 4 (year d) @ ''-'' @ zfill 2 (month d) @ ''-'' @ zfill 2 (day d) @ ''T''
     @ zfill 2 (hour d) @ '':'' @ zfill 2 (minute d) @ '':'' @ zfill 2 (second d)"

text \<open>
  \<open>x.strftime(f"%Y-%m-%dT%H:%M:%S{current_offset}")\<close>: the offset is text without
  directives, copied behind the timestamp. Only a datetime has the method.
\<close>

definition strftime_py :: "string \<Rightarrow> pyval \<Rightarrow> error + string" where
  "strftime_py current_offset x =
     (case x of
        PDateTime d \<Rightarrow> Inr (strftime_iso d @ current_offset)
      | _ \<Rightarrow> Inl AttributeError)"

subsection \<open>The offset from UTC\<close>

text \<open>
  \<open>pytz\<close> and its zone table are not part of the repository, so the table is a
  parameter: \<open>tz name\<close> is \<open>None\<close> where \<open>pytz.timezone(name)\<close> raises
  \<open>UnknownTimeZoneError\<close>, and otherwise the function that gives, for a naive local
  datetime, the offset from UTC in seconds which \<open>localize\<close> attaches to it.
\<close>

type_synonym tzdb = "string \<Rightarrow> (datetime \<Rightarrow> int) option"

text \<open>
  \<open>strftime('%z')\<close> of an aware datetime whose offset is \<open>off\<close> seconds: sign, hours
  and minutes on two digits each, then the seconds when they are not zero. An offset of
  a day or more is refused by \<open>datetime\<close> (\<open>ValueError\<close>).
\<close>

definition strftime_z :: "int \<Rightarrow> error + string" where
  "strftime_z off =
     (if \<not> (- 86400 < off \<and> off < 86400) then Inl ValueError
      else
        (let a = nat \<bar>off\<bar>;
             sign = (if off < 0 then CHR ''-'' else CHR ''+'')
         in Inr (sign # zfill 2 (a div 3600) @ zfill 2 (a div 60 mod 60)
                 @ (if a mod 60 \<noteq> 0 then zfill 2 (a mod 60) else []))))"

text \<open>
  \<open>re.compile("(\-\d{2})(\d{2})").match(s)\<close>: a minus sign and four digits at the start
  of \<open>s\<close>; the groups are the sign with the first two digits, and the last two.
\<close>

fun match_expression :: "string \<Rightarrow> (string \<times> string) option" where
  "match_expression (c0 # c1 # c2 # c3 # c4 # _) =
     (if c0 = CHR ''-'' \<and> is_digit c1 \<and> is_digit c2 \<and> is_digit c3 \<and> is_digit c4
      then Some ([c0, c1, c2], [c3, c4]) else None)"
| "match_expression _ = None"

text \<open>
  \<^verbatim>\<open>
  def utc_offset(self, time_object):
      _expression = re.compile("(\-\d{2})(\d{2})")
      current_offset = pytz.timezone(
          self.timezone).localize(time_object).strftime('%z')
      if not ((match := _expression.match(current_offset))):
          raise ValueError(f"Failed to parse UTC offset of {current_offset}")
      return ':'.join(match.groups())
  \<close>
  \<open>localize\<close> reads \<open>time_object.tzinfo\<close>, which only a datetime has.
\<close>

definition utc_offset :: "tzdb \<Rightarrow> event \<Rightarrow> pyval \<Rightarrow> error + string" where
  "utc_offset tz self time_object =
     (case tz (timezone self) of
        None \<Rightarrow> Inl UnknownTimeZoneError
      | Some zone \<Rightarrow>
          (case time_object of
             PDateTime d \<Rightarrow>
               (case strftime_z (zone d) of
                  Inl e \<Rightarrow> Inl e
                | Inr current_offset \<Rightarrow>
                    (case match_expression current_offset of
                       None \<Rightarrow> Inl ValueError
                     | Some (g1, g2) \<Rightarrow> Inr (g1 @ '':'' @ g2)))
           | _ \<Rightarrow> Inl AttributeError))"

subsection \<open>Wire format\<close>

text \<open>
  The instance dictionary after \<open>__init__\<close>: the six attributes assigned there (the
  flag as the integer it is in Python). The class defines methods and the property
  \<open>time_elapsed\<close>, no data attribute and no \<open>__getattr__\<close>, so reading any other data
  attribute raises \<open>AttributeError\<close>.
\<close>

definition instance_dict :: "event \<Rightarrow> (string \<times> pyval) list" where
  "instance_dict self =
     [(''begin'', begin' self), (''end'', end' self), (''summary'', summary self),
      (''sample_interval_utc'', PInt (if sample_interval_utc self then 1 else 0)),
      (''timezone'', PStr (timezone self)), (''location'', PStr (location self))]"

definition getattr :: "event \<Rightarrow> string \<Rightarrow> error + pyval" where
  "getattr self name =
     (case map_of (instance_dict self) name of
        None \<Rightarrow> Inl AttributeError
      | Some v \<Rightarrow> Inr v)"

text \<open>
  \<^verbatim>\<open>
  def google_calendar_format(self):
      current_offset = self.utc_offset(self.interval[0])
      return list(
          map(lambda x: x.strftime(
              f"%Y-%m-%dT%H:%M:%S{current_offset}"), (self.begin, self.end))
      )
  \<close>
\<close>

definition google_calendar_format :: "tzdb \<Rightarrow> event \<Rightarrow> error + string list" where
  "google_calendar_format tz self =
     (case getattr self ''interval'' of
        Inl e \<Rightarrow> Inl e
      | Inr interval \<Rightarrow>
     (case getindex interval 0 of
        Inl e \<Rightarrow> Inl e
      | Inr t \<Rightarrow>
     (case utc_offset tz self t of
        Inl e \<Rightarrow> Inl e
      | Inr current_offset \<Rightarrow>
     (case strftime_py current_offset (begin' self) of
        Inl e \<Rightarrow> Inl e
      | Inr b \<Rightarrow>
     (case strftime_py current_offset (end' self) of
        Inl e \<Rightarrow> Inl e
      | Inr e' \<Rightarrow> Inr [b, e'])))))"

text \<open>
  \<open>json.dumps(v, indent=4)\<close>. A string is quoted, with quote, backslash and the control
  characters escaped and every character outside the printable ASCII range written as
  \<open>\u00XX\<close>; a non-empty container puts each item on a line of its own, four blanks
  deeper than the container. A datetime cannot be serialised (\<open>TypeError\<close>).
\<close>

definition hex_digit :: "nat \<Rightarrow> char" where
  "hex_digit n = (if n < 10 then char_of (48 + n) else char_of (87 + n))"

definition json_escape :: "char \<Rightarrow> string" where
  "json_escape c =
     (let n = (of_char c :: nat) in
      if n = 0x22 then [CHR 0x5C, CHR 0x22]
      else if n = 0x5C then [CHR 0x5C, CHR 0x5C]
      else if n = 0x08 then [CHR 0x5C, CHR ''b'']
      else if n = 0x0C then [CHR 0x5C, CHR ''f'']
      else if n = 0x0A then [CHR 0x5C, CHR ''n'']
      else if n = 0x0D then [CHR 0x5C, CHR ''r'']
      else if n = 0x09 then [CHR 0x5C, CHR ''t'']
      else if 0x20 \<le> n \<and> n \<le> 0x7E then [c]
      else [CHR 0x5C, CHR ''u'', CHR ''0'', CHR ''0'', hex_digit (n div 16), hex_digit (n mod 16)])"

definition json_string :: "string \<Rightarrow> string" where
  "json_string s = CHR 0x22 # concat (map json_escape s) @ [CHR 0x22]"

definition newline_indent :: "nat \<Rightarrow> string" where
  "newline_indent level = CHR 0x0A # replicate (4 * level) (CHR '' '')"

fun join :: "string \<Rightarrow> string list \<Rightarrow> string" where
  "join sep [] = []"
| "join sep [x] = x"
| "join sep (x # y # zs) = x @ sep @ join sep (y # zs)"

definition json_block :: "char \<Rightarrow> char \<Rightarrow> nat \<Rightarrow> string list \<Rightarrow> string" where
  "json_block opening closing level items =
     opening # newline_indent (Suc level)
     @ join (CHR '','' # newline_indent (Suc level)) items
     @ newline_indent level @ [closing]"

fun json_encode :: "nat \<Rightarrow> pyval \<Rightarrow> error + string"
  and json_items :: "nat \<Rightarrow> pyval list \<Rightarrow> error + string list"
  and json_pairs :: "nat \<Rightarrow> (string \<times> pyval) list \<Rightarrow> error + string list"
where
  "json_encode level PNone = Inr ''null''"
| "json_encode level (PInt i) = Inr (show_int i)"
| "json_encode level (PStr s) = Inr (json_string s)"
| "json_encode level (PDateTime d) = Inl TypeError"
| "json_encode level (PTuple []) = Inr ''[]''"
| "json_encode level (PTuple (x # xs)) =
     (case json_items (Suc level) (x # xs) of
        Inl e \<Rightarrow> Inl e
      | Inr items \<Rightarrow> Inr (json_block (CHR ''['') (CHR '']'') level items))"
| "json_encode level (PDict []) = Inr ''{}''"
| "json_encode level (PDict (kv # kvs)) =
     (case json_pairs (Suc level) (kv # kvs) of
        Inl e \<Rightarrow> Inl e
      | Inr items \<Rightarrow> Inr (json_block (CHR ''{'') (CHR ''}'') level items))"
| "json_items level [] = Inr []"
| "json_items level (x # xs) =
     (case json_encode level x of
        Inl e \<Rightarrow> Inl e
      | Inr s \<Rightarrow> (case json_items level xs of Inl e \<Rightarrow> Inl e | Inr ss \<Rightarrow> Inr (s # ss)))"
| "json_pairs level [] = Inr []"
| "json_pairs level ((k, v) # kvs) =
     (case json_encode level v of
        Inl e \<Rightarrow> Inl e
      | Inr s \<Rightarrow>
          (case json_pairs level kvs of
             Inl e \<Rightarrow> Inl e
           | Inr ss \<Rightarrow> Inr ((json_string k @ '': '' @ s) # ss)))"

definition json_dumps :: "pyval \<Rightarrow> error + string" where
  "json_dumps v = json_encode 0 v"

text \<open>\<open>xs[i]\<close> on a list.\<close>

definition list_index :: "'a list \<Rightarrow> nat \<Rightarrow> error + 'a" where
  "list_index xs i = (if i < length xs then Inr (xs ! i) else Inl IndexError)"

text \<open>
  \<^verbatim>\<open>
  def form_submit_body(self):
      body = [
          ('summary', self.summary),
          ('start', {'dateTime': self.google_calendar_format()
          [0], 'timeZone': self.timezone}),
          ('end', {'dateTime': self.google_calendar_format()
          [1], 'timeZone': self.timezone}),
          ('location', self.location)
      ]
      return json.dumps(collections.OrderedDict(body), indent=4)
  \<close>
\<close>

definition form_submit_body :: "tzdb \<Rightarrow> event \<Rightarrow> error + string" where
  "form_submit_body tz self =
     (case google_calendar_format tz self of
        Inl e \<Rightarrow> Inl e
      | Inr f0 \<Rightarrow>
     (case list_index f0 0 of
        Inl e \<Rightarrow> Inl e
      | Inr start \<Rightarrow>
     (case google_calendar_format tz self of
        Inl e \<Rightarrow> Inl e
      | Inr f1 \<Rightarrow>
     (case list_index f1 1 of
        Inl e \<Rightarrow> Inl e
      | Inr finish \<Rightarrow>
          json_dumps
            (PDict
               [(''summary'', summary self),
                (''start'', PDict [(''dateTime'', PStr start), (''timeZone'', PStr (timezone self))]),
                (''end'', PDict [(''dateTime'', PStr finish), (''timeZone'', PStr (timezone self))]),
                (''location'', PStr (location self))])))))"

subsection \<open>Duration\<close>

text \<open>
  The proleptic Gregorian ordinal of a date, as \<open>datetime\<close> computes it: day 1 is
  1 January of year 1.
\<close>

definition days_before_year :: "nat \<Rightarrow> int" where
  "days_before_year y =
     (let p = int y - 1 in p * 365 + p div 4 - p div 100 + p div 400)"

definition days_before_month :: "nat \<Rightarrow> nat \<Rightarrow> int" where
  "days_before_month y m = int (sum_list (map (days_in_month y) [1..<m]))"

definition toordinal :: "datetime \<Rightarrow> int" where
  "toordinal d = days_before_year (year d) + days_before_month (year d) (month d) + int (day d)"

text \<open>
  \<open>a - b\<close> on two naive datetimes is a \<open>timedelta\<close>, here its length in microseconds:
  the difference of the ordinals in days, of the times of day in seconds, and of the
  microsecond fields.
\<close>

definition datetime_sub :: "datetime \<Rightarrow> datetime \<Rightarrow> int" where
  "datetime_sub a b =
     (let days = toordinal a - toordinal b;
          secs = (int (second a) + int (minute a) * 60 + int (hour a) * 3600)
                 - (int (second b) + int (minute b) * 60 + int (hour b) * 3600);
          us = int (microsecond a) - int (microsecond b)
      in (days * 86400 + secs) * 1000000 + us)"

text \<open>
  \<open>timedelta.total_seconds()\<close> divides the microseconds by \<open>10\<^sup>6\<close>. Python returns the
  float nearest to the quotient; the model keeps the quotient itself.
\<close>

definition total_seconds :: "int \<Rightarrow> rat" where
  "total_seconds us = of_int us / 1000000"

text \<open>
  \<^verbatim>\<open>
  @property
  def time_elapsed(self) -> int:
      """
      Get how long the event is in seconds

      Returns:
          int: duration of event
      """
      return (self.end - self.begin).total_seconds()
  \<close>
  Two datetimes subtract to a \<open>timedelta\<close>; two integers subtract to an integer, which
  has no \<open>total_seconds\<close>; no other pair of the values supports \<open>-\<close>.
\<close>

definition time_elapsed :: "event \<Rightarrow> error + rat" where
  "time_elapsed self =
     (case (end' self, begin' self) of
        (PDateTime e, PDateTime b) \<Rightarrow> Inr (total_seconds (datetime_sub e b))
      | (PInt _, PInt _) \<Rightarrow> Inl AttributeError
      | _ \<Rightarrow> Inl TypeError)"

subsection \<open>Sample data\<close>

text \<open>
  A small zone table to run the definitions on. Los Angeles follows the United States
  rule in force since 2007: daylight time (7 hours behind UTC) from the second Sunday of
  March to the first Sunday of November, standard time (8 hours behind) otherwise, the
  skipped and the repeated hour read as standard time, as \<open>localize\<close> does. A date is a
  Sunday when its ordinal is a multiple of 7.
\<close>

definition first_sunday_from :: "nat \<Rightarrow> nat \<Rightarrow> nat \<Rightarrow> nat" where
  "first_sunday_from y m d =
     d + nat ((- (days_before_year y + days_before_month y m + int d)) mod 7)"

definition los_angeles :: "datetime \<Rightarrow> int" where
  "los_angeles d =
     (let stamp = month d * 10000 + day d * 100 + hour d;
          start = 30000 + first_sunday_from (year d) 3 8 * 100 + 3;
          finish = 110000 + first_sunday_from (year d) 11 1 * 100 + 1
      in if start \<le> stamp \<and> stamp < finish then - 25200 else - 28800)"

definition sample_tz :: tzdb where
  "sample_tz name =
     (if name = ''America/Los_Angeles'' then Some los_angeles
      else if name = ''UTC'' then Some (\<lambda>d. 0)
      else if name = ''Asia/Kolkata'' then Some (\<lambda>d. 19800)
      else None)"

definition dt :: "nat \<Rightarrow> nat \<Rightarrow> nat \<Rightarrow> nat \<Rightarrow> nat \<Rightarrow> nat \<Rightarrow> nat \<Rightarrow> datetime" where
  "dt y m d H M S us =
     \<lparr>year = y, month = m, day = d, hour = H, minute = M, second = S, microsecond = us\<rparr>"

definition sample_event :: event where
  "sample_event =
     \<lparr>begin' = PDateTime (dt 2019 7 14 15 0 0 0), end' = PDateTime (dt 2019 7 14 23 30 0 0),
      summary = PStr ''X'', sample_interval_utc = False,
      timezone = ''America/Los_Angeles'', location = DEFAULT_LOCATION\<rparr>"

section \<open>Properties\<close>

subsection \<open>Auxiliary facts\<close>

lemma char_of_digits:
  "char_of (48::nat) = CHR ''0''" "char_of (55::nat) = CHR ''7''" "char_of (56::nat) = CHR ''8''"
  by (simp_all add: char_of_def bit_0)

lemma is_digit_char_of: "k < 10 \<Longrightarrow> is_digit (char_of (48 + (k::nat)))"
  by (simp add: is_digit_def between_def)

lemma zfill_2: "n < 100 \<Longrightarrow> zfill 2 n = [char_of (48 + n div 10), char_of (48 + n mod 10)]"
proof (cases "n < 10")
  case True
  then show ?thesis by (simp add: zfill_def show_nat.simps char_of_digits)
next
  case False
  assume "n < 100"
  with False have "n div 10 < 10" by simp
  with False show ?thesis
    by (simp add: zfill_def show_nat.simps [of n] show_nat.simps [of "n div 10"])
qed

lemma match_expression_sign:
  "match_expression (c # rest) = Some g \<Longrightarrow> c = CHR ''-''"
  by (erule match_expression.elims) (auto split: if_splits)

lemma strftime_z_west:
  assumes "- 86400 < off" "off < 0"
  shows "\<exists>rest. strftime_z off =
     Inr (CHR ''-'' # zfill 2 (nat (- off) div 3600) @ zfill 2 (nat (- off) div 60 mod 60) @ rest)"
  using assms by (simp add: strftime_z_def Let_def)

lemma la_july: "los_angeles (dt 2019 7 14 15 0 0 0) = - 25200"
  by (simp add: los_angeles_def dt_def first_sunday_from_def days_before_year_def
      days_before_month_def)

lemma la_january: "los_angeles (dt 2019 1 14 15 0 0 0) = - 28800"
  by (simp add: los_angeles_def dt_def first_sunday_from_def days_before_year_def
      days_before_month_def)

lemma sample_zone: "sample_tz (timezone sample_event) = Some los_angeles"
  by (simp add: sample_tz_def sample_event_def)

lemma from_string_example:
  "from_string (PTuple [PStr ''2019-07-14T15:00:00'', PStr ''2019-07-14T23:30:00'']) (PStr ''X'')
     = Inr sample_event"
  by code_simp

lemma getattr_interval: "getattr self ''interval'' = Inl AttributeError"
  by (simp add: getattr_def instance_dict_def)

lemma google_calendar_format_AttributeError:
  "google_calendar_format tz self = Inl AttributeError"
  by (simp add: google_calendar_format_def getattr_interval)

subsection \<open>Equality and ordering\<close>

text \<open>
  Claim C6. Comparing an event for equality with a value that is not an event raises
  (the \<open>ValueError\<close> of the guard; no boolean is returned), and two events are equal
  exactly when their \<open>begin\<close>, their \<open>end\<close> and their \<open>summary\<close> compare equal.
\<close>

theorem eq_op_spec:
  "eq_op self (Other v) = Inl ValueError
   \<and> eq_op self (Ev r) =
       Inr (py_eq (begin' self) (begin' r) \<and> py_eq (end' self) (end' r)
            \<and> py_eq (summary self) (summary r))"
  by (simp add: eq_op_def)

theorem eq_op_spec_witness:
  "eq_op sample_event (Other (PDict [(''summary'', PStr ''X'')])) = Inl ValueError
   \<and> eq_op sample_event (Ev sample_event) = Inr True
   \<and> eq_op sample_event (Ev (sample_event\<lparr>summary := PStr ''Y''\<rparr>)) = Inr False"
  using eq_op_spec [of sample_event "PDict [(''summary'', PStr ''X'')]" sample_event]
    eq_op_spec [of sample_event PNone "sample_event\<lparr>summary := PStr ''Y''\<rparr>"]
  by (simp add: sample_event_def)

text \<open>
  Claim C8. The ordering comparison of two events returns \<open>False\<close> whatever their
  intervals are, and raises (\<open>ValueError\<close>) when the right operand is not an event.
\<close>

theorem lt_op_spec:
  "lt_op self (Ev r) = Inr False \<and> lt_op self (Other v) = Inl ValueError"
  by (simp add: lt_op_def isinstance_EventPacket_def)

text \<open>An event of 2018 is not reported earlier than one of 2019.\<close>

theorem lt_op_spec_witness:
  "lt_op (sample_event\<lparr>begin' := PDateTime (dt 2018 1 1 0 0 0 0),
                       end' := PDateTime (dt 2018 1 1 1 0 0 0)\<rparr>)
     (Ev sample_event) = Inr False
   \<and> lt_op sample_event (Other (PInt 0)) = Inl ValueError"
  using lt_op_spec [of "sample_event\<lparr>begin' := PDateTime (dt 2018 1 1 0 0 0 0),
                                      end' := PDateTime (dt 2018 1 1 1 0 0 0)\<rparr>" sample_event]
    lt_op_spec [of sample_event sample_event "PInt 0"]
  by simp

subsection \<open>The offset from UTC\<close>

text \<open>
  Behind UTC the reformatting does its work. For every naive datetime \<open>d\<close> and every
  configured zone that the table knows and that is behind UTC at \<open>d\<close> (by less than a
  day), \<open>utc_offset\<close> returns the offset which the table gives for \<open>d\<close>, as a minus
  sign, the hours on two digits, a colon, and the minutes on two digits: \<open>-07:00\<close> at
  seven hours behind, \<open>-08:00\<close> at eight.
\<close>

lemma utc_offset_west:
  assumes "tz (timezone self) = Some zone" and "- 86400 < zone d" and "zone d < 0"
  shows "utc_offset tz self (PDateTime d) =
           Inr (CHR ''-'' # zfill 2 (nat (- zone d) div 3600) @ '':''
                @ zfill 2 (nat (- zone d) div 60 mod 60))
         \<and> (zone d = - 25200 \<longrightarrow> utc_offset tz self (PDateTime d) = Inr ''-07:00'')
         \<and> (zone d = - 28800 \<longrightarrow> utc_offset tz self (PDateTime d) = Inr ''-08:00'')"
proof -
  define h where "h = nat (- zone d) div 3600"
  define m where "m = nat (- zone d) div 60 mod 60"
  have hb: "h < 24" using assms(2,3) unfolding h_def by simp
  have mb: "m < 60" unfolding m_def by simp
  obtain rest where z: "strftime_z (zone d) = Inr (CHR ''-'' # zfill 2 h @ zfill 2 m @ rest)"
    using strftime_z_west [OF assms(2,3)] unfolding h_def m_def by blast
  have zh: "zfill 2 h = [char_of (48 + h div 10), char_of (48 + h mod 10)]"
    using hb by (simp add: zfill_2)
  have zm: "zfill 2 m = [char_of (48 + m div 10), char_of (48 + m mod 10)]"
    using mb by (simp add: zfill_2)
  have dh: "is_digit (char_of (48 + h div 10))" "is_digit (char_of (48 + h mod 10))"
    using hb by (simp_all add: is_digit_char_of)
  have dm: "is_digit (char_of (48 + m div 10))" "is_digit (char_of (48 + m mod 10))"
    using mb by (simp_all add: is_digit_char_of)
  have main: "utc_offset tz self (PDateTime d) = Inr (CHR ''-'' # zfill 2 h @ '':'' @ zfill 2 m)"
    using dh dm by (simp add: utc_offset_def assms(1) z zh zm)
  have july: "zone d = - 25200 \<Longrightarrow> CHR ''-'' # zfill 2 h @ '':'' @ zfill 2 m = ''-07:00''"
    unfolding h_def m_def by (simp add: zfill_2 char_of_digits)
  have january: "zone d = - 28800 \<Longrightarrow> CHR ''-'' # zfill 2 h @ '':'' @ zfill 2 m = ''-08:00''"
    unfolding h_def m_def by (simp add: zfill_2 char_of_digits)
  show ?thesis
    using main july january unfolding h_def m_def by simp
qed

text \<open>Los Angeles on 14 July 2019 and on 14 January 2019.\<close>

lemma utc_offset_los_angeles:
  "sample_tz (timezone sample_event) = Some los_angeles
   \<and> los_angeles (dt 2019 7 14 15 0 0 0) = - 25200
   \<and> utc_offset sample_tz sample_event (PDateTime (dt 2019 7 14 15 0 0 0)) = Inr ''-07:00''
   \<and> los_angeles (dt 2019 1 14 15 0 0 0) = - 28800
   \<and> utc_offset sample_tz sample_event (PDateTime (dt 2019 1 14 15 0 0 0)) = Inr ''-08:00''"
proof -
  have west: "- 86400 < los_angeles (dt 2019 7 14 15 0 0 0)" "los_angeles (dt 2019 7 14 15 0 0 0) < 0"
    "- 86400 < los_angeles (dt 2019 1 14 15 0 0 0)" "los_angeles (dt 2019 1 14 15 0 0 0) < 0"
    unfolding la_july la_january by simp_all
  have july:
    "utc_offset sample_tz sample_event (PDateTime (dt 2019 7 14 15 0 0 0)) = Inr ''-07:00''"
    using utc_offset_west [of sample_tz sample_event los_angeles "dt 2019 7 14 15 0 0 0",
        OF sample_zone west(1,2)] la_july
    by blast
  have january:
    "utc_offset sample_tz sample_event (PDateTime (dt 2019 1 14 15 0 0 0)) = Inr ''-08:00''"
    using utc_offset_west [of sample_tz sample_event los_angeles "dt 2019 1 14 15 0 0 0",
        OF sample_zone west(3,4)] la_january
    by blast
  show ?thesis
    using july january sample_zone la_july la_january by blast
qed

text \<open>
  Claim C1 asks \<open>utc_offset\<close> for the offset of the configured zone on the given date,
  as a sign, the hours, a colon and the minutes, whatever the zone is. In the zone \<open>UTC\<close>
  the raw offset is \<open>+0000\<close>, a well-formed offset; the pattern has no plus sign, so
  the method raises \<open>ValueError\<close> where the claim has it return \<open>+00:00\<close>.
\<close>

theorem utc_offset_utc_raises:
  "utc_offset sample_tz (sample_event\<lparr>timezone := ''UTC''\<rparr>) (PDateTime (dt 2019 7 14 15 0 0 0))
     = Inl ValueError"
  by (simp add: utc_offset_def sample_tz_def strftime_z_def zfill_def show_nat.simps)

text \<open>
  Claim C10. For every naive datetime and every configured zone that the table knows
  and whose offset at that datetime is not negative, \<open>utc_offset\<close> raises
  (\<open>ValueError\<close>): the raw offset starts with a plus sign, and the pattern asks for a
  minus sign. (An offset of a whole day or more is refused before it is rendered, with
  the same exception.)
\<close>

theorem utc_offset_east:
  assumes "tz (timezone self) = Some zone" and "0 \<le> zone d"
  shows "utc_offset tz self (PDateTime d) = Inl ValueError"
proof (cases "zone d < 86400")
  case False
  then show ?thesis by (simp add: utc_offset_def assms(1) strftime_z_def)
next
  case True
  then obtain rest where z: "strftime_z (zone d) = Inr (CHR ''+'' # rest)"
    using assms(2) by (simp add: strftime_z_def Let_def)
  have "match_expression (CHR ''+'' # rest) = None"
    using match_expression_sign [of "CHR ''+''" rest]
    by (cases "match_expression (CHR ''+'' # rest)") auto
  then show ?thesis by (simp add: utc_offset_def assms(1) z)
qed

text \<open>Kolkata, five and a half hours ahead of UTC.\<close>

theorem utc_offset_east_witness:
  "sample_tz (timezone (sample_event\<lparr>timezone := ''Asia/Kolkata''\<rparr>)) = Some (\<lambda>d. 19800)
   \<and> utc_offset sample_tz (sample_event\<lparr>timezone := ''Asia/Kolkata''\<rparr>)
        (PDateTime (dt 2019 7 14 15 0 0 0)) = Inl ValueError"
proof -
  have z: "sample_tz (timezone (sample_event\<lparr>timezone := ''Asia/Kolkata''\<rparr>)) = Some (\<lambda>d. 19800)"
    by (simp add: sample_tz_def)
  show ?thesis
    using utc_offset_east [of sample_tz "sample_event\<lparr>timezone := ''Asia/Kolkata''\<rparr>"
        "\<lambda>d. 19800" "dt 2019 7 14 15 0 0 0"] z
    by simp
qed

subsection \<open>Construction\<close>

text \<open>
  Claim C4. A mapping that holds \<open>s1\<close> under \<open>start\<close>, \<open>s2\<close> under \<open>end\<close> and \<open>t\<close>
  under \<open>summary\<close> gives, through \<open>from_dict\<close>, what \<open>from_string((s1, s2), t)\<close> gives:
  the same event, or the same exception. The other keys of the mapping play no part.
\<close>

theorem from_dict_from_string:
  assumes "map_of body ''start'' = Some s1"
    and "map_of body ''end'' = Some s2"
    and "map_of body ''summary'' = Some t"
  shows "from_dict (PDict body) = from_string (PTuple [s1, s2]) t"
  using assms by (simp add: from_dict_def isinstance_dict_def getitem_def call_from_string_def)

text \<open>A mapping with two more keys; both sides are the sample event.\<close>

theorem from_dict_from_string_witness:
  "from_dict (PDict [(''colour'', PInt 7), (''start'', PStr ''2019-07-14T15:00:00''),
                     (''end'', PStr ''2019-07-14T23:30:00''), (''summary'', PStr ''X''),
                     (''location'', PNone)])
     = from_string (PTuple [PStr ''2019-07-14T15:00:00'', PStr ''2019-07-14T23:30:00'']) (PStr ''X'')
   \<and> from_dict (PDict [(''colour'', PInt 7), (''start'', PStr ''2019-07-14T15:00:00''),
                     (''end'', PStr ''2019-07-14T23:30:00''), (''summary'', PStr ''X''),
                     (''location'', PNone)]) = Inr sample_event"
  using from_dict_from_string
    [of "[(''colour'', PInt 7), (''start'', PStr ''2019-07-14T15:00:00''),
          (''end'', PStr ''2019-07-14T23:30:00''), (''summary'', PStr ''X''), (''location'', PNone)]"
        "PStr ''2019-07-14T15:00:00''" "PStr ''2019-07-14T23:30:00''" "PStr ''X''"]
  by (simp add: from_string_example)

text \<open>
  Claim C5 asks \<open>from_freebusy\<close> for an event with the nested \<open>dateTime\<close> fields. The
  method hands \<open>from_string\<close> three arguments where it takes two, so no call of it
  returns an event.
\<close>

lemma from_freebusy_never_returns: "from_freebusy response \<noteq> Inr ev"
  by (simp add: from_freebusy_def call_from_string_def split: sum.splits)

text \<open>Claim C5, at the input the claim names: the call raises \<open>TypeError\<close>.\<close>

theorem from_freebusy_example:
  "from_freebusy
     (PDict [(''start'', PDict [(''dateTime'', PStr ''2019-07-14T15:00:00'')]),
             (''end'', PDict [(''dateTime'', PStr ''2019-07-14T23:30:00'')]),
             (''summary'', PStr ''X'')])
   = Inl TypeError"
  by (simp add: from_freebusy_def getitem_def call_from_string_def)

text \<open>
  Claim C7 asks the constructor to raise when the interval is not a pair or the summary
  is not text. The guard raises when the interval is not a tuple \<^emph>\<open>and\<close> the summary is
  not a string.
\<close>

lemma EventPacket_init_guard:
  assumes "\<not> isinstance_tuple_arg interval" and "\<not> isinstance_str summ"
  shows "EventPacket_init interval summ sample loc = Inl ValueError"
  using assms by (simp add: EventPacket_init_def)

lemma EventPacket_str_interval:
  "EventPacket (Val (PStr ''ab'')) (PStr ''s'')
   = Inr \<lparr>begin' = PStr ''a'', end' = PStr ''b'', summary = PStr ''s'',
          sample_interval_utc = False, timezone = ''America/Los_Angeles'',
          location = DEFAULT_LOCATION\<rparr>"
  by (simp add: EventPacket_def EventPacket_init_def isinstance_tuple_arg_def isinstance_tuple_def
      isinstance_str_def unpack2_def iter_py_def unpack2_map_def DEFAULT_SAMPLE_INTERVAL_UTC_def)

text \<open>
  Claim C7, at a pair of timestamps with the summary \<open>42\<close>: the constructor returns an
  event whose summary is the integer.
\<close>

theorem EventPacket_summary_unchecked:
  "EventPacket (Val (PTuple [PDateTime (dt 2019 7 14 15 0 0 0), PDateTime (dt 2019 7 14 23 30 0 0)]))
     (PInt 42)
   = Inr (sample_event\<lparr>summary := PInt 42\<rparr>)"
  by (simp add: EventPacket_def EventPacket_init_def isinstance_tuple_arg_def isinstance_tuple_def
      unpack2_def iter_py_def unpack2_map_def sample_event_def DEFAULT_SAMPLE_INTERVAL_UTC_def)

subsection \<open>Wire format\<close>

text \<open>
  Claim C2 asks \<open>google_calendar_format\<close> for the two rendered timestamps. The method
  reads \<open>self.interval\<close>, an attribute that no event has, so every call raises
  \<open>AttributeError\<close>.
\<close>

theorem google_calendar_format_raises:
  "google_calendar_format tz self = Inl AttributeError"
  unfolding google_calendar_format_def by (simp add: getattr_interval)

text \<open>
  Claim C3 asks for the submission body to be parsed back. \<open>form_submit_body\<close> calls
  \<open>google_calendar_format\<close> first, so it raises \<open>AttributeError\<close> as well and there is
  no body to parse.
\<close>

theorem form_submit_body_raises:
  "form_submit_body tz self = Inl AttributeError"
  by (simp add: form_submit_body_def google_calendar_format_AttributeError)

subsection \<open>Duration\<close>

text \<open>
  Claim C9 asks \<open>time_elapsed\<close> for a whole number of seconds. The property returns
  \<open>total_seconds()\<close>, fraction included: it is a whole number when the two microsecond
  fields agree, as for the event from 15:00:00 to 23:30:00.
\<close>

lemma time_elapsed_example: "time_elapsed sample_event = Inr 30600"
  by (simp add: time_elapsed_def sample_event_def dt_def datetime_sub_def toordinal_def
      total_seconds_def)

text \<open>Across the turn of the year the ordinals differ: two hours are 7200 seconds.\<close>

lemma time_elapsed_new_year:
  "time_elapsed (sample_event\<lparr>begin' := PDateTime (dt 2019 12 31 23 0 0 0),
                             end' := PDateTime (dt 2020 1 1 1 0 0 0)\<rparr>) = Inr 7200"
  by (simp add: time_elapsed_def dt_def datetime_sub_def toordinal_def total_seconds_def
      days_before_year_def days_before_month_def days_in_month_def is_leap_def upt_rec)

lemma time_elapsed_whole:
  assumes "begin' self = PDateTime b" and "end' self = PDateTime e"
    and "microsecond e = microsecond b"
  shows "\<exists>n::int. time_elapsed self = Inr (of_int n)"
proof -
  define k where
    "k = (toordinal e - toordinal b) * 86400
         + ((int (second e) + int (minute e) * 60 + int (hour e) * 3600)
            - (int (second b) + int (minute b) * 60 + int (hour b) * 3600))"
  have "datetime_sub e b = k * 1000000"
    using assms(3) by (simp add: datetime_sub_def Let_def k_def)
  then have "time_elapsed self = Inr (of_int k)"
    using assms(1,2) by (simp add: time_elapsed_def total_seconds_def)
  then show ?thesis ..
qed

text \<open>
  Claim C9, at an event that ends half a second after it begins: the result is one
  half.
\<close>

theorem time_elapsed_fraction:
  "time_elapsed (sample_event\<lparr>end' := PDateTime (dt 2019 7 14 15 0 0 500000)\<rparr>) = Inr (1 / 2)"
  by (simp add: time_elapsed_def sample_event_def dt_def datetime_sub_def toordinal_def
      total_seconds_def)

end
